theory Spec2Isabelle
  imports Main "HOL-Library.Word"
begin

section \<open>The toolbox package (tool.go)\<close>

text \<open>
  The package is a set of methods on \<open>*Tools\<close>. Each method is embedded as a HOL
  function of the receiver's fields and of the parts of the outside world it reads or
  writes. Functions of the Go standard library that the methods call (crypto/rand,
  net/http, encoding/json, os, io) are not part of the package: where a method only passes
  data through them they are parameters of the model.
\<close>

subsection \<open>Data\<close>

type_synonym byte = "8 word"

text \<open>The struct \<open>Tools\<close>, field by field.\<close>

record Tools =
  MaxFileSize :: int
  AllowedFileTypes :: "string list"
  MaxJSONSize :: int
  AllowUnkownFields :: bool

text \<open>The struct \<open>UploadedFile\<close>.\<close>

record UploadedFile =
  NewFileName :: string
  OriginalFileName :: string
  FileSize :: int

text \<open>
  Error values. An error that a library hands to the package is kept by its dynamic type
  as far as the package inspects it (\<open>errors.As\<close>, \<open>errors.Is\<close>, comparison with
  \<open>io.EOF\<close>) and by its \<open>Error()\<close> text otherwise.
\<close>

datatype lib_error =
    json_SyntaxError string int                  \<comment> \<open>text, Offset\<close>
  | json_UnmarshalTypeError string string int    \<comment> \<open>text, Field, Offset\<close>
  | json_InvalidUnmarshalError string            \<comment> \<open>text\<close>
  | io_EOF
  | io_ErrUnexpectedEOF
  | other_error string                           \<comment> \<open>any other error, by its text\<close>

text \<open>
  The errors the package returns: made by \<open>errors.New\<close>, made by \<open>fmt.Errorf\<close> (kept
  as the format string and its arguments), or a library's error passed on unchanged.
\<close>

datatype fmt_arg = Arg_int int | Arg_string string | Arg_error lib_error

datatype go_error =
    errors_New string
  | fmt_Errorf string "fmt_arg list"
  | Lib lib_error

text \<open>
  A run-time panic of the Go program. It unwinds the goroutine; it is not a value the
  caller receives.
\<close>

datatype panic =
    IndexOutOfRange nat nat   \<comment> \<open>index, length\<close>
  | MakesliceLenOutOfRange

subsection \<open>RandomString\<close>

definition randomStringSource :: string where
  "randomStringSource = ''abcdefghijklmnopqrstuvwxyzABCDEFGHIJKLMNOPQRSTUVWXYZ0123456789_+''"

text \<open>
  \<open>rand.Reader\<close> as seen through \<open>rand.Prime(rand.Reader, 64)\<close>: the sequence of
  numbers that the successive calls return. The call's error is discarded by the source
  (\<open>p, _ := ...\<close>); the model takes a reader that delivers.
\<close>

type_synonym rand_Reader = "nat \<Rightarrow> nat"

definition rand_Prime :: "rand_Reader \<Rightarrow> nat \<times> rand_Reader" where
  "rand_Prime rd = (rd 0, \<lambda>i. rd (Suc i))"

text \<open>\<open>p.Uint64()\<close>: the low 64 bits of the big integer.\<close>

definition Uint64 :: "nat \<Rightarrow> nat" where
  "Uint64 p = p mod 2 ^ 64"

text \<open>
  The loop \<open>for i := range s\<close> over the \<open>k\<close> remaining positions of \<open>s\<close>: one prime
  per position, \<open>s[i] = r[x%y]\<close> with \<open>y = uint64(len(r))\<close>.
\<close>

fun RandomString_loop :: "nat \<Rightarrow> rand_Reader \<Rightarrow> string \<times> rand_Reader" where
  "RandomString_loop 0 rd = ([], rd)"
| "RandomString_loop (Suc k) rd =
     (let (p, rd1) = rand_Prime rd;
          x = Uint64 p;
          y = length randomStringSource;
          c = randomStringSource ! (x mod y);
          (s, rd2) = RandomString_loop k rd1
      in (c # s, rd2))"

text \<open>\<open>make([]rune, n)\<close> panics for a negative \<open>n\<close>.\<close>

definition RandomString :: "rand_Reader \<Rightarrow> int \<Rightarrow> panic + (string \<times> rand_Reader)" where
  "RandomString rd n =
     (if n < 0 then Inl MakesliceLenOutOfRange
      else Inr (RandomString_loop (nat n) rd))"

subsection \<open>Slugify\<close>

text \<open>
  A Go string is read by \<open>strings.ToLower\<close> and by the regexp package rune by rune; the
  model takes the string as the sequence of its runes (code points).
\<close>

type_synonym rune = nat

definition runes :: "string \<Rightarrow> rune list" where
  "runes s = map of_char s"

text \<open>
  \<open>unicode.ToLower\<close>: ASCII is lower-cased by arithmetic, any other rune through the
  Unicode case tables, which are a parameter here (\<open>To_LowerCase\<close>).
\<close>

definition unicode_ToLower :: "(rune \<Rightarrow> rune) \<Rightarrow> rune \<Rightarrow> rune" where
  "unicode_ToLower To_LowerCase r =
     (if r \<le> 127 then (if 65 \<le> r \<and> r \<le> 90 then r + (97 - 65) else r)
      else To_LowerCase r)"

definition strings_ToLower :: "(rune \<Rightarrow> rune) \<Rightarrow> rune list \<Rightarrow> rune list" where
  "strings_ToLower To_LowerCase s = map (unicode_ToLower To_LowerCase) s"

text \<open>The character class of the regular expression \<open>[^a-z\d]+\<close>.\<close>

definition re_class :: "rune \<Rightarrow> bool" where
  "re_class r = (\<not> ((97 \<le> r \<and> r \<le> 122) \<or> (48 \<le> r \<and> r \<le> 57)))"

text \<open>
  \<open>re.ReplaceAllString(src, repl)\<close> for that expression and a replacement without
  \<open>$\<close>: scanning from the left, each match (a longest run of class members) is replaced.
\<close>

function ReplaceAllString :: "rune list \<Rightarrow> rune list \<Rightarrow> rune list" where
  "ReplaceAllString [] repl = []"
| "ReplaceAllString (r # rs) repl =
     (if re_class r then repl @ ReplaceAllString (dropWhile re_class rs) repl
      else r # ReplaceAllString rs repl)"
  by pat_completeness auto
termination
  by (relation "measure (\<lambda>(s, repl). length s)")
    (auto simp: less_Suc_eq_le length_dropWhile_le)

text \<open>\<open>strings.Trim(s, cutset)\<close>.\<close>

definition strings_Trim :: "rune list \<Rightarrow> rune list \<Rightarrow> rune list" where
  "strings_Trim s cutset =
     rev (dropWhile (\<lambda>r. r \<in> set cutset) (rev (dropWhile (\<lambda>r. r \<in> set cutset) s)))"

definition Slugify :: "(rune \<Rightarrow> rune) \<Rightarrow> rune list \<Rightarrow> rune list \<times> go_error option" where
  "Slugify To_LowerCase s =
     (if length s = 0 then ([], Some (errors_New ''empty string''))
      else let slug = strings_Trim
                 (ReplaceAllString (strings_ToLower To_LowerCase s) (runes ''-''))
                 (runes ''-'')
           in if length slug = 0
              then ([], Some (errors_New ''after removing character, slug is zero leng''))
              else (slug, None))"

text \<open>
  The specification of the slug, in its own words: lower-case the input, replace every
  maximal run of characters outside \<open>[a-z0-9]\<close> with a single \<open>-\<close>, trim leading and
  trailing \<open>-\<close>. \<open>maximal_runs P xs\<close> cuts \<open>xs\<close> into its maximal runs of elements on
  which \<open>P\<close> has one value.
\<close>

function maximal_runs :: "('a \<Rightarrow> bool) \<Rightarrow> 'a list \<Rightarrow> 'a list list" where
  "maximal_runs P [] = []"
| "maximal_runs P (x # xs) =
     (x # takeWhile (\<lambda>y. P y = P x) xs) # maximal_runs P (dropWhile (\<lambda>y. P y = P x) xs)"
  by pat_completeness auto
termination
  by (relation "measure (\<lambda>(P, xs). length xs)")
    (auto simp: less_Suc_eq_le length_dropWhile_le)

definition outside_a_z_0_9 :: "rune \<Rightarrow> bool" where
  "outside_a_z_0_9 r = (r \<notin> of_char ` set ''abcdefghijklmnopqrstuvwxyz0123456789'')"

definition slug_spec :: "(rune \<Rightarrow> rune) \<Rightarrow> rune list \<Rightarrow> rune list" where
  "slug_spec lower s =
     (let lowered = map lower s;
          replaced = concat (map (\<lambda>run. if outside_a_z_0_9 (hd run) then runes ''-'' else run)
                        (maximal_runs outside_a_z_0_9 lowered))
      in rev (dropWhile (\<lambda>r. r = of_char CHR ''-'')
           (rev (dropWhile (\<lambda>r. r = of_char CHR ''-'') replaced))))"

text \<open>The two failures of \<open>Slugify\<close>, under the names the specification gives them.\<close>

definition EmptyInput :: go_error where
  "EmptyInput = errors_New ''empty string''"

definition EmptyResult :: go_error where
  "EmptyResult = errors_New ''after removing character, slug is zero leng''"

text \<open>The runes of the katakana string of the package's test, U+30CF U+30ED \<dots>\<close>

definition katakana :: "rune list" where
  "katakana = [0x30CF, 0x30ED, 0x30FC, 0x30EF, 0x30FC, 0x30EB, 0x30C9]"

subsection \<open>ReadJSON\<close>

text \<open>
  The calls \<open>ReadJSON\<close> makes into net/http and encoding/json, as parameters: \<open>'b\<close> is
  the request body, \<open>'d\<close> the state of a \<open>json.Decoder\<close>, \<open>'v\<close> the value behind the
  pointer \<open>data\<close>. \<open>Decode\<close> returns the error, the value left in \<open>data\<close> and the
  decoder after the call; \<open>Decode_empty_struct\<close> is \<open>dec.Decode(&struct{}{})\<close>.
\<close>

record ('b, 'd, 'v) json_lib =
  MaxBytesReader :: "'b \<Rightarrow> int \<Rightarrow> 'b"
  NewDecoder :: "'b \<Rightarrow> 'd"
  DisallowUnknownFields :: "'d \<Rightarrow> 'd"
  Decode :: "'d \<Rightarrow> 'v \<Rightarrow> lib_error option \<times> 'v \<times> 'd"
  Decode_empty_struct :: "'d \<Rightarrow> lib_error option \<times> 'd"

text \<open>\<open>err.Error()\<close>.\<close>

fun Error_text :: "lib_error \<Rightarrow> string" where
  "Error_text (json_SyntaxError text off) = text"
| "Error_text (json_UnmarshalTypeError text field off) = text"
| "Error_text (json_InvalidUnmarshalError text) = text"
| "Error_text io_EOF = ''EOF''"
| "Error_text io_ErrUnexpectedEOF = ''unexpected EOF''"
| "Error_text (other_error text) = text"

text \<open>\<open>strings.HasPrefix\<close> and \<open>strings.TrimPrefix\<close>.\<close>

definition strings_HasPrefix :: "string \<Rightarrow> string \<Rightarrow> bool" where
  "strings_HasPrefix s pre = (length s \<ge> length pre \<and> take (length pre) s = pre)"

definition strings_TrimPrefix :: "string \<Rightarrow> string \<Rightarrow> string" where
  "strings_TrimPrefix s pre = (if strings_HasPrefix s pre then drop (length pre) s else s)"

text \<open>
  The \<open>switch\<close> over the error of the first \<open>Decode\<close>, its cases in the order of the
  source: a later case is reached only by an error that fails the earlier ones.
\<close>

definition ReadJSON_switch :: "int \<Rightarrow> lib_error \<Rightarrow> go_error" where
  "ReadJSON_switch maxBytes err =
     (case err of
        json_SyntaxError text off \<Rightarrow>
          fmt_Errorf ''body contains badly-formed JSON (at character %d)'' [Arg_int off]
      | io_ErrUnexpectedEOF \<Rightarrow> errors_New ''body contains badly-formed JSON''
      | json_UnmarshalTypeError text field off \<Rightarrow>
          (if field \<noteq> ''''
           then fmt_Errorf ''body contains incorrect JSON type for field %q'' [Arg_string field]
           else fmt_Errorf ''body contains incorrect JSON type (at: %d)'' [Arg_int off])
      | io_EOF \<Rightarrow> errors_New ''body must not be empty''
      | _ \<Rightarrow>
          (if strings_HasPrefix (Error_text err) ''json:unkown field''
           then (let fieldName = strings_TrimPrefix (Error_text err) ''json:unkown field''
                 in fmt_Errorf ''body containes unknown key %s'' [Arg_string fieldName])
           else if Error_text err = ''http: request body too large''
           then fmt_Errorf ''body must not be larger than %d bytes'' [Arg_int maxBytes]
           else (case err of
                   json_InvalidUnmarshalError text \<Rightarrow>
                     fmt_Errorf ''error unmarshaling JSON: %s'' [Arg_error err]
                 | _ \<Rightarrow> Lib err)))"

text \<open>The size limit and the decoder that \<open>ReadJSON\<close> sets up before decoding.\<close>

definition ReadJSON_decoder :: "('b, 'd, 'v) json_lib \<Rightarrow> Tools \<Rightarrow> 'b \<Rightarrow> int \<times> 'd" where
  "ReadJSON_decoder J t body =
     (let maxBytes = (if MaxJSONSize t \<noteq> 0 then MaxJSONSize t else 1024 * 1024);
          body1 = MaxBytesReader J body maxBytes;
          dec = NewDecoder J body1;
          dec1 = (if \<not> AllowUnkownFields t then DisallowUnknownFields J dec else dec)
      in (maxBytes, dec1))"

definition ReadJSON :: "('b, 'd, 'v) json_lib \<Rightarrow> Tools \<Rightarrow> 'b \<Rightarrow> 'v \<Rightarrow> go_error option \<times> 'v" where
  "ReadJSON J t body data =
     (let (maxBytes, dec) = ReadJSON_decoder J t body;
          (err, data1, dec1) = Decode J dec data
      in case err of
           Some e \<Rightarrow> (Some (ReadJSON_switch maxBytes e), data1)
         | None \<Rightarrow>
             (let (err2, dec2) = Decode_empty_struct J dec1
              in if err2 \<noteq> Some io_EOF
                 then (Some (errors_New ''body must contain only one JSON value''), data1)
                 else (None, data1)))"

text \<open>
  What encoding/json returns for an object key that the target has no field for, once
  \<open>DisallowUnknownFields\<close> is set: the error \<open>fmt.Errorf("json: unknown field %q", key)\<close>.
  The argument is the key as \<open>%q\<close> prints it, between double quotes.
\<close>

definition json_unknown_field :: "string \<Rightarrow> lib_error" where
  "json_unknown_field quoted_key = other_error (''json: unknown field '' @ quoted_key)"

text \<open>
  A decoder that replays a given list of results, one per call of \<open>Decode\<close>, and reports
  \<open>io.EOF\<close> when the list is used up: it stands for encoding/json on a body whose
  successive decodings produce these results.
\<close>

definition scripted_decoder :: "(lib_error option list, lib_error option list, 'v) json_lib" where
  "scripted_decoder =
     \<lparr> MaxBytesReader = (\<lambda>b n. b),
       NewDecoder = (\<lambda>b. b),
       DisallowUnknownFields = (\<lambda>d. d),
       Decode = (\<lambda>d v. case d of [] \<Rightarrow> (Some io_EOF, v, []) | r # rs \<Rightarrow> (r, v, rs)),
       Decode_empty_struct = (\<lambda>d. case d of [] \<Rightarrow> (Some io_EOF, []) | r # rs \<Rightarrow> (r, rs)) \<rparr>"

text \<open>The classified errors, under the names the specification gives them.\<close>

definition UnknownField :: "string \<Rightarrow> go_error" where
  "UnknownField name = fmt_Errorf ''body containes unknown key %s'' [Arg_string name]"

definition MultipleValues :: go_error where
  "MultipleValues = errors_New ''body must contain only one JSON value''"

subsection \<open>The upload pipeline\<close>

text \<open>
  A \<open>*multipart.FileHeader\<close> of the parsed form, together with what the stream that
  \<open>hdr.Open()\<close> returns will do: the bytes of the part, and the errors (if any) of
  \<open>Open\<close>, of \<open>Read\<close> (other than the end of the stream) and of \<open>Seek(0, 0)\<close>.
\<close>

record FileHeader =
  Filename :: string
  Content :: "byte list"
  Open_err :: "lib_error option"
  Read_err :: "lib_error option"
  Seek_err :: "lib_error option"

text \<open>
  The request: the error of \<open>r.ParseMultipartForm(maxMemory)\<close>, and the map
  \<open>r.MultipartForm.File\<close> as the list of its entries in the order in which \<open>range\<close>
  visits them.
\<close>

record Request =
  ParseMultipartForm :: "int \<Rightarrow> lib_error option"
  MultipartForm_File :: "(string \<times> FileHeader list) list"

text \<open>
  The world outside the process: the paths for which the error of \<open>os.Stat\<close> does not
  satisfy \<open>os.IsNotExist\<close> (\<open>existing\<close>), the contents of the files
  written (by directory and name), the handles that are open (streams of parts, files of
  the operating system), and the random source.
\<close>

datatype handle = Part_stream string | Os_file string string

record world =
  existing :: "string list"
  disk :: "string \<times> string \<rightharpoonup> byte list"
  open_handles :: "handle list"
  rand :: rand_Reader

text \<open>
  The library calls of the pipeline whose results the package only passes on:
  \<open>http.DetectContentType\<close>, \<open>strings.EqualFold\<close>, and the errors of \<open>os.MkdirAll\<close>
  and \<open>os.Create\<close>; \<open>io.Copy\<close> returns the number of bytes written and its error.
  A created file is named by the directory and the file name given to \<open>filepath.Join\<close>.
\<close>

record os_lib =
  DetectContentType :: "byte list \<Rightarrow> string"
  EqualFold :: "string \<Rightarrow> string \<Rightarrow> bool"
  MkdirAll :: "string \<Rightarrow> lib_error option"
  Create :: "string \<Rightarrow> string \<Rightarrow> lib_error option"
  Copy :: "string \<Rightarrow> string \<Rightarrow> byte list \<Rightarrow> nat \<times> lib_error option"

text \<open>
  \<open>CreateDirIfNotExist\<close>: \<open>os.MkdirAll\<close> when \<open>os.Stat\<close> reports that the path does
  not exist.
\<close>

definition CreateDirIfNotExist ::
  "os_lib \<Rightarrow> world \<Rightarrow> string \<Rightarrow> go_error option \<times> world" where
  "CreateDirIfNotExist L w path =
     (if path \<notin> set (existing w)
      then (case MkdirAll L path of
              Some err \<Rightarrow> (Some (Lib err), w)
            | None \<Rightarrow> (None, w\<lparr>existing := path # existing w\<rparr>))
      else (None, w))"

text \<open>
  \<open>Close\<close> on a file or stream. On a nil \<open>*os.File\<close> it returns \<open>ErrInvalid\<close> and does
  nothing.
\<close>

definition File_Close :: "handle option \<Rightarrow> world \<Rightarrow> world" where
  "File_Close f w =
     (case f of None \<Rightarrow> w
      | Some h \<Rightarrow> w\<lparr>open_handles := remove1 h (open_handles w)\<rparr>)"

text \<open>
  \<open>buff := make([]byte, 512)\<close> followed by \<open>_, err = infile.Read(buff)\<close>: the error, or
  the buffer after the read. The read fills the first \<open>n = min(512, len)\<close> bytes and leaves
  the others as \<open>make\<close> set them; at the end of the stream (an empty part) it returns
  \<open>io.EOF\<close>. The count \<open>n\<close> is discarded by the source.
\<close>

definition infile_Read :: "FileHeader \<Rightarrow> lib_error + byte list" where
  "infile_Read hdr =
     (let buff = replicate 512 0
      in case Read_err hdr of
           Some e \<Rightarrow> Inl e
         | None \<Rightarrow>
             if Content hdr = [] then Inl io_EOF
             else (let n = min (length buff) (length (Content hdr))
                   in Inr (take n (Content hdr) @ drop n buff)))"

text \<open>The allow-list check, with the loop over \<open>t.AllowedFileTypes\<close> as a fold.\<close>

definition allowed_type :: "os_lib \<Rightarrow> Tools \<Rightarrow> string \<Rightarrow> bool" where
  "allowed_type L t fileType =
     (if length (AllowedFileTypes t) > 0
      then foldl (\<lambda>allowed x. if EqualFold L fileType x then True else allowed)
             False (AllowedFileTypes t)
      else True)"

text \<open>
  \<open>filepath.Ext\<close>: the suffix of the path from the last dot of its last element, empty
  when that element has no dot.
\<close>

definition filepath_Ext :: "string \<Rightarrow> string" where
  "filepath_Ext path =
     (let last_elem_rev = takeWhile (\<lambda>c. c \<noteq> CHR ''/'') (rev path)
      in if CHR ''.'' \<in> set last_elem_rev
         then CHR ''.'' # rev (takeWhile (\<lambda>c. c \<noteq> CHR ''.'') last_elem_rev)
         else [])"

text \<open>
  The function literal that \<open>UploadFiles\<close> calls once per part. Its parameter is
  \<open>uploadeFiles\<close>; the variable \<open>uploadedFiles\<close> that it appends to is the one declared
  at the top of \<open>UploadFiles\<close>, which the literal captures. The result is what the literal
  returns, the captured variable after the call, and the world after the call.
  \<open>defer infile.Close()\<close> runs on every exit after the stream is open;
  \<open>defer outfile.Close()\<close> is evaluated while \<open>outfile\<close> is still nil (the created file
  is bound to a new variable of the \<open>if\<close> statement), so it closes nothing.
\<close>

type_synonym files_result = "UploadedFile list \<times> go_error option"

definition upload_closure ::
  "os_lib \<Rightarrow> Tools \<Rightarrow> string \<Rightarrow> bool \<Rightarrow> FileHeader \<Rightarrow> UploadedFile list \<Rightarrow> world
     \<Rightarrow> UploadedFile list \<Rightarrow> (panic + files_result) \<times> UploadedFile list \<times> world" where
  "upload_closure L t uploadDir renameFile hdr uploadedFiles w uploadeFiles =
     (case Open_err hdr of
        Some e \<Rightarrow> (Inr ([], Some (Lib e)), uploadedFiles, w)
      | None \<Rightarrow>
          (let infile = Part_stream (Filename hdr);
               w1 = w\<lparr>open_handles := infile # open_handles w\<rparr>;
               deferred = (\<lambda>w. File_Close (Some infile) (File_Close None w))
           in case infile_Read hdr of
                Inl e \<Rightarrow> (Inr ([], Some (Lib e)), uploadedFiles, File_Close (Some infile) w1)
              | Inr buff \<Rightarrow>
                  (let fileType = DetectContentType L buff
                   in if \<not> allowed_type L t fileType
                      then (Inr ([], Some (errors_New ''the uploaded file type is not permitted'')),
                            uploadedFiles, File_Close (Some infile) w1)
                      else case Seek_err hdr of
                        Some e \<Rightarrow>
                          (Inr ([], Some (Lib e)), uploadedFiles, File_Close (Some infile) w1)
                      | None \<Rightarrow>
                          (case (if renameFile
                                 then (case RandomString (rand w1) 25 of
                                         Inl p \<Rightarrow> Inl p
                                       | Inr (s, rd) \<Rightarrow>
                                           Inr (s @ filepath_Ext (Filename hdr), w1\<lparr>rand := rd\<rparr>))
                                 else Inr (Filename hdr, w1)) of
                             Inl p \<Rightarrow> (Inl p, uploadedFiles, File_Close (Some infile) w1)
                           | Inr (newFileName, w2) \<Rightarrow>
                               (case Create L uploadDir newFileName of
                                  Some e \<Rightarrow> (Inr ([], Some (Lib e)), uploadedFiles, deferred w2)
                                | None \<Rightarrow>
                                    (let outfile = Os_file uploadDir newFileName;
                                         w3 = w2\<lparr>disk := (disk w2)((uploadDir, newFileName) \<mapsto> []),
                                                 open_handles := outfile # open_handles w2\<rparr>;
                                         (fileSize, err) = Copy L uploadDir newFileName (Content hdr);
                                         w4 = w3\<lparr>disk := (disk w3)((uploadDir, newFileName) \<mapsto>
                                                   take fileSize (Content hdr))\<rparr>
                                     in case err of
                                          Some e \<Rightarrow> (Inr ([], Some (Lib e)), uploadedFiles, deferred w4)
                                        | None \<Rightarrow>
                                            (let uploadedFile =
                                                   \<lparr>NewFileName = newFileName,
                                                    OriginalFileName = Filename hdr,
                                                    FileSize = int fileSize\<rparr>
                                             in (Inr (uploadeFiles, None),
                                                 uploadedFiles @ [uploadedFile],
                                                 deferred w4))))))))"

text \<open>
  The inner loop \<open>for _, hdr := range fHeaders\<close>. The statement
  \<open>uploadedFiles, err := func(...){...}(uploadedFiles)\<close> declares new variables in the loop
  body; \<open>return uploadedFiles, err\<close> returns that inner variable. \<open>Some\<close> is a return
  from \<open>UploadFiles\<close>, \<open>None\<close> the normal end of the loop.
\<close>

fun range_fHeaders ::
  "os_lib \<Rightarrow> Tools \<Rightarrow> string \<Rightarrow> bool \<Rightarrow> FileHeader list \<Rightarrow> UploadedFile list \<Rightarrow> world
     \<Rightarrow> (panic + files_result option) \<times> UploadedFile list \<times> world" where
  "range_fHeaders L t uploadDir renameFile [] uploadedFiles w = (Inr None, uploadedFiles, w)"
| "range_fHeaders L t uploadDir renameFile (hdr # hdrs) uploadedFiles w =
     (case upload_closure L t uploadDir renameFile hdr uploadedFiles w uploadedFiles of
        (Inl p, outer, w1) \<Rightarrow> (Inl p, outer, w1)
      | (Inr (uploadedFiles_inner, err), outer, w1) \<Rightarrow>
          (if err \<noteq> None then (Inr (Some (uploadedFiles_inner, err)), outer, w1)
           else range_fHeaders L t uploadDir renameFile hdrs outer w1))"

text \<open>The outer loop \<open>for _, fHeaders := range r.MultipartForm.File\<close>.\<close>

fun range_File ::
  "os_lib \<Rightarrow> Tools \<Rightarrow> string \<Rightarrow> bool \<Rightarrow> (string \<times> FileHeader list) list
     \<Rightarrow> UploadedFile list \<Rightarrow> world
     \<Rightarrow> (panic + files_result option) \<times> UploadedFile list \<times> world" where
  "range_File L t uploadDir renameFile [] uploadedFiles w = (Inr None, uploadedFiles, w)"
| "range_File L t uploadDir renameFile ((key, fHeaders) # rest) uploadedFiles w =
     (case range_fHeaders L t uploadDir renameFile fHeaders uploadedFiles w of
        (Inr None, outer, w1) \<Rightarrow> range_File L t uploadDir renameFile rest outer w1
      | returned \<Rightarrow> returned)"

text \<open>
  \<open>UploadFiles\<close>. The receiver is a pointer: the assignment to \<open>t.MaxFileSize\<close> is seen
  by the caller, so the \<open>Tools\<close> after the call is part of the result.
\<close>

definition UploadFiles ::
  "os_lib \<Rightarrow> Tools \<Rightarrow> world \<Rightarrow> Request \<Rightarrow> string \<Rightarrow> bool list
     \<Rightarrow> (panic + files_result) \<times> Tools \<times> world" where
  "UploadFiles L t w r uploadDir rename =
     (let renameFile = (if length rename > 0 then rename ! 0 else True);
          uploadedFiles = [];
          t1 = (if MaxFileSize t = 0 then t\<lparr>MaxFileSize := 1024 * 1024 * 1024\<rparr> else t);
          (err, w1) = CreateDirIfNotExist L w uploadDir
      in if err \<noteq> None then (Inr ([], err), t1, w1)
         else if ParseMultipartForm r (MaxFileSize t1) \<noteq> None
         then (Inr ([], Some (errors_New ''the uploaded file is too big'')), t1, w1)
         else (case range_File L t1 uploadDir renameFile (MultipartForm_File r) uploadedFiles w1 of
                 (Inl p, outer, w2) \<Rightarrow> (Inl p, t1, w2)
               | (Inr (Some returned), outer, w2) \<Rightarrow> (Inr returned, t1, w2)
               | (Inr None, outer, w2) \<Rightarrow> (Inr (outer, None), t1, w2)))"

text \<open>\<open>UploadOneFile\<close>; \<open>files[0]\<close> panics on an empty slice.\<close>

definition UploadOneFile ::
  "os_lib \<Rightarrow> Tools \<Rightarrow> world \<Rightarrow> Request \<Rightarrow> string \<Rightarrow> bool list
     \<Rightarrow> (panic + UploadedFile option \<times> go_error option) \<times> Tools \<times> world" where
  "UploadOneFile L t w r uploadDir rename =
     (let renameFile = (if length rename > 0 then rename ! 0 else True)
      in case UploadFiles L t w r uploadDir [renameFile] of
           (Inl p, t1, w1) \<Rightarrow> (Inl p, t1, w1)
         | (Inr (files, err), t1, w1) \<Rightarrow>
             (if err \<noteq> None then (Inr (None, err), t1, w1)
              else if 0 < length files then (Inr (Some (files ! 0), None), t1, w1)
              else (Inl (IndexOutOfRange 0 (length files)), t1, w1)))"


text \<open>
  A concrete setting on which the pipeline is evaluated below. The sniffer agrees with
  \<open>http.DetectContentType\<close> on the buffers used here (the PNG signature; text without
  binary bytes; data with zero bytes); no library call fails.
\<close>

definition png_signature :: "byte list" where
  "png_signature = [0x89, 0x50, 0x4E, 0x47, 0x0D, 0x0A, 0x1A, 0x0A]"

definition example_lib :: os_lib where
  "example_lib =
     \<lparr> DetectContentType =
         (\<lambda>buff. if take 8 buff = png_signature then ''image/png''
                 else if 0 \<in> set buff then ''application/octet-stream''
                 else ''text/plain; charset=utf-8''),
       EqualFold = (\<lambda>s x. s = x),
       MkdirAll = (\<lambda>path. None),
       Create = (\<lambda>dir name. None),
       Copy = (\<lambda>dir name content. (length content, None)) \<rparr>"

definition example_world :: world where
  "example_world =
     \<lparr> existing = [''./testdata/upload/''], disk = Map.empty, open_handles = [],
       rand = (\<lambda>i. 13835058055282166141) \<rparr>"

definition png_part :: FileHeader where
  "png_part =
     \<lparr> Filename = ''img.png'', Content = png_signature @ [0, 0, 0, 0x0D],
       Open_err = None, Read_err = None, Seek_err = None \<rparr>"

definition text_part :: FileHeader where
  "text_part =
     \<lparr> Filename = ''note.txt'', Content = [0x68, 0x69],
       Open_err = None, Read_err = None, Seek_err = None \<rparr>"

definition empty_part :: FileHeader where
  "empty_part =
     \<lparr> Filename = ''empty.txt'', Content = [],
       Open_err = None, Read_err = None, Seek_err = None \<rparr>"

definition example_request :: "FileHeader list \<Rightarrow> Request" where
  "example_request parts =
     \<lparr> ParseMultipartForm = (\<lambda>maxMemory. None),
       MultipartForm_File = (if parts = [] then [] else [(''file'', parts)]) \<rparr>"

definition example_tools :: "string list \<Rightarrow> Tools" where
  "example_tools allowed =
     \<lparr> MaxFileSize = 0, AllowedFileTypes = allowed, MaxJSONSize = 0,
       AllowUnkownFields = False \<rparr>"

subsection \<open>WriteJSON, ErrorJSON, PushJSONToRemote, DownloadStaticFiles\<close>

text \<open>The struct \<open>JSONResponse\<close>; \<open>Data\<close> is absent when it is nil.\<close>

record 'a JSONResponse =
  Error :: bool
  Message :: string
  Data :: "'a option"

text \<open>
  The calls into encoding/json, net/http and path, as parameters: \<open>'w\<close> is the
  \<open>http.ResponseWriter\<close>, \<open>'r\<close> the request, \<open>'v\<close> the value to encode.
  \<open>Header_store\<close> is the assignment \<open>w.Header()[key] = value\<close>, \<open>Header_Set\<close> is
  \<open>w.Header().Set(key, value)\<close>.
\<close>

record ('w, 'r, 'v) http_lib =
  Marshal :: "'v \<Rightarrow> lib_error + byte list"
  Header_store :: "'w \<Rightarrow> string \<Rightarrow> string list \<Rightarrow> 'w"
  Header_Set :: "'w \<Rightarrow> string \<Rightarrow> string \<Rightarrow> 'w"
  WriteHeader :: "'w \<Rightarrow> int \<Rightarrow> 'w"
  Write :: "'w \<Rightarrow> byte list \<Rightarrow> lib_error option \<times> 'w"
  path_Join :: "string \<Rightarrow> string \<Rightarrow> string"
  ServeFile :: "'w \<Rightarrow> 'r \<Rightarrow> string \<Rightarrow> 'w"

text \<open>
  The calls of \<open>PushJSONToRemote\<close>: \<open>'c\<close> is the \<open>*http.Client\<close>, \<open>'q\<close> the request
  it builds, \<open>'p\<close> the response.
\<close>

record ('c, 'q, 'p, 'v) client_lib =
  json_Marshal :: "'v \<Rightarrow> lib_error + byte list"
  default_Client :: 'c
  NewRequest :: "string \<Rightarrow> string \<Rightarrow> byte list \<Rightarrow> lib_error + 'q"
  Request_Header_Set :: "'q \<Rightarrow> string \<Rightarrow> string \<Rightarrow> 'q"
  Do :: "'c \<Rightarrow> 'q \<Rightarrow> lib_error + 'p"
  Body_Close :: "'p \<Rightarrow> 'p"
  StatusCode :: "'p \<Rightarrow> int"

text \<open>
  \<open>WriteJSON\<close>. The optional \<open>headers[0]\<close> is given as the list of its entries in the
  order in which \<open>range\<close> visits them.
\<close>

definition WriteJSON ::
  "('w, 'r, 'v) http_lib \<Rightarrow> 'w \<Rightarrow> int \<Rightarrow> 'v \<Rightarrow> (string \<times> string list) list list
     \<Rightarrow> go_error option \<times> 'w" where
  "WriteJSON H w status data headers =
     (case Marshal H data of
        Inl err \<Rightarrow> (Some (Lib err), w)
      | Inr out \<Rightarrow>
          (let w1 = (if length headers > 0
                     then foldl (\<lambda>w (key, value). Header_store H w key value) w (headers ! 0)
                     else w);
               w2 = Header_Set H w1 ''Content-Type'' ''application/json'';
               w3 = WriteHeader H w2 status;
               (err, w4) = Write H w3 out
           in (map_option Lib err, w4)))"

text \<open>\<open>ErrorJSON\<close>; the error is given with its \<open>Error()\<close> text.\<close>

definition StatusBadRequest :: int where
  "StatusBadRequest = 400"

definition ErrorJSON ::
  "('w, 'r, 'a JSONResponse) http_lib \<Rightarrow> 'w \<Rightarrow> lib_error \<Rightarrow> int list \<Rightarrow> go_error option \<times> 'w" where
  "ErrorJSON H w err status =
     (let statusCode = (if length status > 0 then status ! 0 else StatusBadRequest);
          payload = \<lparr>Error = True, Message = Error_text err, Data = None\<rparr>
      in WriteJSON H w statusCode payload [])"

text \<open>
  \<open>PushJSONToRemote\<close>. The deferred \<open>response.Body.Close()\<close> has run when the caller
  receives the response.
\<close>

definition PushJSONToRemote ::
  "('c, 'q, 'p, 'v) client_lib \<Rightarrow> string \<Rightarrow> 'v \<Rightarrow> 'c list
     \<Rightarrow> 'p option \<times> int \<times> go_error option" where
  "PushJSONToRemote C url data client =
     (case json_Marshal C data of
        Inl err \<Rightarrow> (None, 0, Some (Lib err))
      | Inr jsonData \<Rightarrow>
          (let httpClient = (if length client > 0 then client ! 0 else default_Client C)
           in case NewRequest C ''POST'' url jsonData of
                Inl err \<Rightarrow> (None, 0, Some (Lib err))
              | Inr request \<Rightarrow>
                  (let request1 = Request_Header_Set C request ''Content-Type'' ''application/json''
                   in case Do C httpClient request1 of
                        Inl err \<Rightarrow> (None, 0, Some (Lib err))
                      | Inr response \<Rightarrow>
                          (Some (Body_Close C response), StatusCode C response, None))))"

text \<open>\<open>DownloadStaticFiles\<close>.\<close>

definition DownloadStaticFiles ::
  "('w, 'r, 'v) http_lib \<Rightarrow> 'w \<Rightarrow> 'r \<Rightarrow> string \<Rightarrow> string \<Rightarrow> string \<Rightarrow> 'w" where
  "DownloadStaticFiles H w r p file displayName =
     (let fp = path_Join H p file;
          w1 = Header_Set H w ''Content-Disposition''
                 (''attachment; filename'' @ [CHR 0x22] @ displayName @ [CHR 0x22])
      in ServeFile H w1 r fp)"

subsection \<open>The methods as transformers of the receiver\<close>

text \<open>
  Every operation is a method with the pointer receiver \<open>t *Tools\<close>: what it stores
  through \<open>t\<close> is seen by the caller. \<open>UploadFiles\<close> and \<open>UploadOneFile\<close> above return
  the receiver after the call. The bodies of the other eight methods contain no assignment
  through \<open>t\<close>, and the library calls they make are not given \<open>t\<close>; as methods they
  return their results and the receiver after the call. \<open>ErrorJSON\<close> calls
  \<open>t.WriteJSON\<close> and passes the receiver on. The arguments of a call are values other than
  the receiver itself.
\<close>

definition method_RandomString ::
  "Tools \<Rightarrow> rand_Reader \<Rightarrow> int \<Rightarrow> (panic + string \<times> rand_Reader) \<times> Tools" where
  "method_RandomString t rd n = (RandomString rd n, t)"

definition method_Slugify ::
  "(rune \<Rightarrow> rune) \<Rightarrow> Tools \<Rightarrow> rune list \<Rightarrow> (rune list \<times> go_error option) \<times> Tools" where
  "method_Slugify To_LowerCase t s = (Slugify To_LowerCase s, t)"

definition method_CreateDirIfNotExist ::
  "os_lib \<Rightarrow> Tools \<Rightarrow> world \<Rightarrow> string \<Rightarrow> (go_error option \<times> world) \<times> Tools" where
  "method_CreateDirIfNotExist L t w path = (CreateDirIfNotExist L w path, t)"

definition method_ReadJSON ::
  "('b, 'd, 'v) json_lib \<Rightarrow> Tools \<Rightarrow> 'b \<Rightarrow> 'v \<Rightarrow> (go_error option \<times> 'v) \<times> Tools" where
  "method_ReadJSON J t body data = (ReadJSON J t body data, t)"

definition method_WriteJSON ::
  "('w, 'r, 'v) http_lib \<Rightarrow> Tools \<Rightarrow> 'w \<Rightarrow> int \<Rightarrow> 'v \<Rightarrow> (string \<times> string list) list list
     \<Rightarrow> (go_error option \<times> 'w) \<times> Tools" where
  "method_WriteJSON H t w status data headers = (WriteJSON H w status data headers, t)"

definition method_ErrorJSON ::
  "('w, 'r, 'a JSONResponse) http_lib \<Rightarrow> Tools \<Rightarrow> 'w \<Rightarrow> lib_error \<Rightarrow> int list
     \<Rightarrow> (go_error option \<times> 'w) \<times> Tools" where
  "method_ErrorJSON H t w err status =
     (let statusCode = (if length status > 0 then status ! 0 else StatusBadRequest);
          payload = \<lparr>Error = True, Message = Error_text err, Data = None\<rparr>
      in method_WriteJSON H t w statusCode payload [])"

definition method_PushJSONToRemote ::
  "('c, 'q, 'p, 'v) client_lib \<Rightarrow> Tools \<Rightarrow> string \<Rightarrow> 'v \<Rightarrow> 'c list
     \<Rightarrow> ('p option \<times> int \<times> go_error option) \<times> Tools" where
  "method_PushJSONToRemote C t url data client = (PushJSONToRemote C url data client, t)"

definition method_DownloadStaticFiles ::
  "('w, 'r, 'v) http_lib \<Rightarrow> Tools \<Rightarrow> 'w \<Rightarrow> 'r \<Rightarrow> string \<Rightarrow> string \<Rightarrow> string \<Rightarrow> 'w \<times> Tools" where
  "method_DownloadStaticFiles H t w r p file displayName =
     (DownloadStaticFiles H w r p file displayName, t)"

section \<open>Properties\<close>

subsection \<open>RandomString\<close>

lemma length_randomStringSource: "length randomStringSource = 64"
  by (simp add: randomStringSource_def)

lemma RandomString_loop_length: "length (fst (RandomString_loop k rd)) = k"
  by (induction k arbitrary: rd) (simp_all add: split_def Let_def)

lemma RandomString_loop_alphabet:
  "set (fst (RandomString_loop k rd)) \<subseteq> set randomStringSource"
proof (induction k arbitrary: rd)
  case 0
  show ?case by simp
next
  case (Suc k)
  have "Uint64 (rd 0) mod 64 < length randomStringSource"
    by (simp add: length_randomStringSource)
  then have "randomStringSource ! (Uint64 (rd 0) mod 64) \<in> set randomStringSource"
    by (rule nth_mem)
  with Suc show ?case
    by (simp add: split_def Let_def rand_Prime_def length_randomStringSource)
qed

text \<open>
  C9. For every \<open>n \<ge> 0\<close>, \<open>RandomString(n)\<close> returns (it does not panic) a string of
  length exactly \<open>n\<close>, and every character of it is an element of the 64-character
  alphabet \<open>randomStringSource\<close>, whatever the random source delivers.
\<close>

theorem RandomString_length_alphabet:
  assumes "0 \<le> n"
  shows "\<exists>s rd'. RandomString rd n = Inr (s, rd') \<and> int (length s) = n
           \<and> set s \<subseteq> set randomStringSource \<and> length randomStringSource = 64"
proof -
  obtain s rd' where r: "RandomString_loop (nat n) rd = (s, rd')"
    by (cases "RandomString_loop (nat n) rd")
  have "length s = nat n"
    using RandomString_loop_length [of "nat n" rd] r by simp
  moreover have "set s \<subseteq> set randomStringSource"
    using RandomString_loop_alphabet [of "nat n" rd] r by simp
  ultimately show ?thesis
    using assms r by (simp add: RandomString_def length_randomStringSource)
qed

theorem RandomString_length_alphabet_witness:
  "(0::int) \<le> 3 \<and>
   (\<exists>s rd'. RandomString (\<lambda>i. if i = 0 then 13835058055282166141 else 13835058055282164097) 3
        = Inr (s, rd') \<and> int (length s) = 3 \<and> set s \<subseteq> set randomStringSource
      \<and> length randomStringSource = 64)"
  using RandomString_length_alphabet
    [of 3 "\<lambda>i. if i = 0 then 13835058055282166141 else 13835058055282164097"]
  by simp

lemma RandomString_loop_2: "RandomString_loop 2 rd = RandomString_loop (Suc (Suc 0)) rd"
  by (simp add: numeral_2_eq_2)

lemma odd_positions:
  "map (\<lambda>m. randomStringSource ! (2 * m + 1)) [0..<32] = ''bdfhjlnprtvxzBDFHJLNPRTVXZ13579+''"
  by (simp add: randomStringSource_def upt_rec [of _ "numeral _"] upt_rec [of 0])

lemma even_positions:
  "map (\<lambda>m. randomStringSource ! (2 * m)) [0..<32] = ''acegikmoqsuwyACEGIKMOQSUWY02468_''"
  by (simp add: randomStringSource_def upt_rec [of _ "numeral _"] upt_rec [of 0])

lemma odd_index_char:
  assumes "j < 64" and "odd j"
  shows "randomStringSource ! j \<in> set ''bdfhjlnprtvxzBDFHJLNPRTVXZ13579+''"
proof -
  from assms obtain m where "j = 2 * m + 1" and "m < 32"
    by (auto elim!: oddE)
  then have "randomStringSource ! j
      \<in> set (map (\<lambda>m. randomStringSource ! (2 * m + 1)) [0..<32])"
    by auto
  then show ?thesis unfolding odd_positions .
qed

lemma odd_Uint64_mod: "odd p \<Longrightarrow> odd (Uint64 p mod 64)"
proof -
  assume o: "odd p"
  have "even (p mod 2 ^ 64) \<longleftrightarrow> even p"
    by (rule dvd_mod_iff) simp
  moreover have "even (p mod 2 ^ 64 mod 64) \<longleftrightarrow> even (p mod 2 ^ 64)"
    by (rule dvd_mod_iff) simp
  ultimately show ?thesis using o by (simp add: Uint64_def)
qed

lemma RandomString_loop_odd:
  "\<forall>i. odd (rd i) \<Longrightarrow> c \<in> set (fst (RandomString_loop k rd)) \<Longrightarrow>
     \<exists>j<64. odd j \<and> c = randomStringSource ! j"
proof (induction k arbitrary: rd)
  case 0
  then show ?case by simp
next
  case (Suc k)
  let ?j = "Uint64 (rd 0) mod 64"
  from Suc.prems(2) have "c = randomStringSource ! ?j
      \<or> c \<in> set (fst (RandomString_loop k (\<lambda>i. rd (Suc i))))"
    by (simp add: split_def Let_def rand_Prime_def length_randomStringSource)
  then show ?case
  proof
    assume "c = randomStringSource ! ?j"
    moreover have "odd ?j" using Suc.prems(1) by (simp add: odd_Uint64_mod)
    moreover have "?j < 64" by simp
    ultimately show ?thesis by blast
  next
    assume a: "c \<in> set (fst (RandomString_loop k (\<lambda>i. rd (Suc i))))"
    have "\<forall>i. odd (rd (Suc i))" using Suc.prems(1) by simp
    then show ?thesis using a by (rule Suc.IH [of "\<lambda>i. rd (Suc i)"])
  qed
qed

text \<open>
  C10, as the code has it. \<open>rand.Prime\<close> returns a prime of bit length 64, which is odd;
  the index \<open>x % 64\<close> is then odd. So every character of an output stands at an odd index
  of the alphabet: it is one of the 32 characters \<open>b d f \<dots> z B D \<dots> Z 1 3 5 7 9 +\<close>, and
  none of the 32 characters at the even indices, \<open>a c e \<dots> y A C \<dots> Y 0 2 4 6 8 _\<close>,
  occurs. The character \<open>9\<close> stands at index 61 and does occur.
\<close>

theorem RandomString_odd_index_only:
  assumes "\<forall>i. odd (rd i)" and "RandomString rd n = Inr (s, rd')"
  shows "set s \<subseteq> set ''bdfhjlnprtvxzBDFHJLNPRTVXZ13579+''
       \<and> set s \<inter> set ''acegikmoqsuwyACEGIKMOQSUWY02468_'' = {}
       \<and> map (\<lambda>m. randomStringSource ! (2 * m + 1)) [0..<32] = ''bdfhjlnprtvxzBDFHJLNPRTVXZ13579+''
       \<and> map (\<lambda>m. randomStringSource ! (2 * m)) [0..<32] = ''acegikmoqsuwyACEGIKMOQSUWY02468_''"
proof -
  from assms(2) have s: "s = fst (RandomString_loop (nat n) rd)"
    by (auto simp: RandomString_def split: if_splits)
  have sub: "set s \<subseteq> set ''bdfhjlnprtvxzBDFHJLNPRTVXZ13579+''"
  proof
    fix c assume "c \<in> set s"
    with s assms(1) obtain j where "j < 64" "odd j" "c = randomStringSource ! j"
      using RandomString_loop_odd [of rd c "nat n"] by blast
    then show "c \<in> set ''bdfhjlnprtvxzBDFHJLNPRTVXZ13579+''"
      using odd_index_char [of j] by blast
  qed
  have "set ''bdfhjlnprtvxzBDFHJLNPRTVXZ13579+''
      \<inter> set ''acegikmoqsuwyACEGIKMOQSUWY02468_'' = {}"
    by simp
  with sub have "set s \<inter> set ''acegikmoqsuwyACEGIKMOQSUWY02468_'' = {}"
    by blast
  with sub show ?thesis
    using odd_positions even_positions by blast
qed

theorem RandomString_odd_index_only_witness:
  "(\<forall>i. odd ((\<lambda>i. if i = 0 then 13835058055282166141 else 13835058055282164097) i :: nat))
   \<and> RandomString (\<lambda>i. if i = 0 then 13835058055282166141 else 13835058055282164097) 2
       = Inr (''9b'', \<lambda>i. 13835058055282164097)
   \<and> set ''9b'' \<subseteq> set ''bdfhjlnprtvxzBDFHJLNPRTVXZ13579+''
   \<and> set ''9b'' \<inter> set ''acegikmoqsuwyACEGIKMOQSUWY02468_'' = {}"
proof -
  have h1: "\<forall>i. odd ((\<lambda>i. if i = 0 then 13835058055282166141 else 13835058055282164097) i :: nat)"
    by simp
  have h2: "RandomString (\<lambda>i. if i = 0 then 13835058055282166141 else 13835058055282164097) 2
       = Inr (''9b'', \<lambda>i. 13835058055282164097)"
    by (simp add: RandomString_def RandomString_loop_2 rand_Prime_def Uint64_def
        randomStringSource_def Let_def)
  from RandomString_odd_index_only [OF h1 h2] h1 h2 show ?thesis
    by simp
qed

text \<open>
  C10 as the claim words it counts \<open>9\<close> among the even-indexed characters that can never
  occur. With the 64-bit prime 13835058055282166141 (which is 61 modulo 64) the output of
  \<open>RandomString(1)\<close> is the string \<open>9\<close>.
\<close>

theorem RandomString_emits_9:
  "map_sum id fst (RandomString (\<lambda>_. 13835058055282166141) 1) = Inr ''9''
   \<and> odd (13835058055282166141 :: nat)
   \<and> randomStringSource ! 61 = CHR ''9''
   \<and> CHR ''9'' \<notin> set ''acegikmoqsuwyACEGIKMOQSUWY02468_''"
  by (simp add: RandomString_def rand_Prime_def Uint64_def randomStringSource_def Let_def)

subsection \<open>Slugify\<close>

lemma re_class_eq: "re_class = outside_a_z_0_9"
proof
  fix r show "re_class r = outside_a_z_0_9 r"
    unfolding re_class_def outside_a_z_0_9_def
    apply simp
    apply arith
    done
qed

lemma concat_maximal_runs: "concat (maximal_runs P xs) = xs"
  by (induction P xs rule: maximal_runs.induct) simp_all

lemma ReplaceAllString_word:
  "\<forall>r\<in>set w. \<not> re_class r \<Longrightarrow>
     ReplaceAllString (w @ rest) repl = w @ ReplaceAllString rest repl"
  by (induction w) simp_all

lemma ReplaceAllString_runs:
  "ReplaceAllString x repl =
     concat (map (\<lambda>run. if re_class (hd run) then repl else run) (maximal_runs re_class x))"
proof (induction re_class x rule: maximal_runs.induct)
  case 1
  show ?case by simp
next
  case (2 x xs)
  show ?case
  proof (cases "re_class x")
    case True
    then have "(\<lambda>y. re_class y = re_class x) = re_class" by auto
    with True 2 show ?thesis by simp
  next
    case False
    then have e: "(\<lambda>y. re_class y = re_class x) = (\<lambda>y. \<not> re_class y)" by auto
    have "ReplaceAllString (x # xs) repl =
        x # ReplaceAllString
              (takeWhile (\<lambda>y. \<not> re_class y) xs @ dropWhile (\<lambda>y. \<not> re_class y) xs) repl"
      using False by simp
    also have "\<dots> = x # takeWhile (\<lambda>y. \<not> re_class y) xs
        @ ReplaceAllString (dropWhile (\<lambda>y. \<not> re_class y) xs) repl"
      by (subst ReplaceAllString_word) (auto dest: set_takeWhileD)
    finally show ?thesis using False 2 e by simp
  qed
qed

lemma strings_Trim_dash:
  "strings_Trim x (runes ''-'') =
     rev (dropWhile (\<lambda>r. r = of_char CHR ''-'')
       (rev (dropWhile (\<lambda>r. r = of_char CHR ''-'') x)))"
  by (simp add: strings_Trim_def runes_def)

lemma Slugify_refines:
  assumes "s \<noteq> []"
  shows "Slugify low s =
     (let slug = slug_spec (unicode_ToLower low) s
      in if slug = [] then ([], Some EmptyResult) else (slug, None))"
proof -
  have "strings_Trim (ReplaceAllString (strings_ToLower low s) (runes ''-'')) (runes ''-'')
      = slug_spec (unicode_ToLower low) s"
    unfolding strings_Trim_dash ReplaceAllString_runs re_class_eq strings_ToLower_def
      slug_spec_def Let_def ..
  then show ?thesis
    using assms by (simp only: Slugify_def Let_def EmptyResult_def length_0_conv if_False)
qed

lemma Slugify_complex_string:
  "Slugify low (runes ''Now is the time for all GOOD+='')
     = (runes ''now-is-the-time-for-all-good'', None)"
  by (simp add: Slugify_def strings_ToLower_def strings_Trim_def unicode_ToLower_def
      re_class_def runes_def)

lemma Slugify_japanese_and_roman:
  "\<forall>r\<in>set katakana. low r = r \<Longrightarrow>
     Slugify low (runes ''hello'' @ katakana) = (runes ''hello'', None)"
  by (simp add: Slugify_def strings_ToLower_def strings_Trim_def unicode_ToLower_def
      re_class_def runes_def katakana_def)

text \<open>
  C8. For every non-empty input, \<open>Slugify\<close> returns what the specification describes
  (lower-case, every maximal run of characters outside \<open>[a-z0-9]\<close> replaced by one \<open>-\<close>,
  leading and trailing \<open>-\<close> trimmed), and fails with \<open>EmptyResult\<close> when that leaves no
  characters; the two examples evaluate as stated (the katakana runes have no lower-case
  mapping); the empty input fails with \<open>EmptyInput\<close>.
\<close>

theorem Slugify_meets_spec:
  "(s \<noteq> [] \<longrightarrow> Slugify low s =
      (let slug = slug_spec (unicode_ToLower low) s
       in if slug = [] then ([], Some EmptyResult) else (slug, None)))
   \<and> Slugify low (runes ''Now is the time for all GOOD+='')
       = (runes ''now-is-the-time-for-all-good'', None)
   \<and> ((\<forall>r\<in>set katakana. low r = r) \<longrightarrow>
        Slugify low (runes ''hello'' @ katakana) = (runes ''hello'', None))
   \<and> Slugify low [] = ([], Some EmptyInput)"
  using Slugify_refines [of s low] Slugify_complex_string [of low]
    Slugify_japanese_and_roman [of low]
  by (simp add: Slugify_def EmptyInput_def)

theorem Slugify_meets_spec_witness:
  "runes ''  Gophers & Go-lang!  '' \<noteq> []
   \<and> Slugify (\<lambda>r. r) (runes ''  Gophers & Go-lang!  '') = (runes ''gophers-go-lang'', None)
   \<and> slug_spec (unicode_ToLower (\<lambda>r. r)) (runes ''  Gophers & Go-lang!  '')
       = runes ''gophers-go-lang''
   \<and> Slugify (\<lambda>r. r) (runes ''hello'' @ katakana) = (runes ''hello'', None)
   \<and> Slugify (\<lambda>r. r) (runes ''+= !'') = ([], Some EmptyResult)
   \<and> Slugify (\<lambda>r. r) katakana = ([], Some EmptyResult)"
proof -
  have s1: "slug_spec (unicode_ToLower (\<lambda>r. r)) (runes ''  Gophers & Go-lang!  '')
       = runes ''gophers-go-lang''"
    by (simp add: slug_spec_def unicode_ToLower_def outside_a_z_0_9_def runes_def)
  have s2: "slug_spec (unicode_ToLower (\<lambda>r. r)) (runes ''+= !'') = []"
    by (simp add: slug_spec_def unicode_ToLower_def outside_a_z_0_9_def runes_def)
  have s3: "slug_spec (unicode_ToLower (\<lambda>r. r)) katakana = []"
    by (simp add: slug_spec_def unicode_ToLower_def outside_a_z_0_9_def runes_def katakana_def)
  show ?thesis
    using Slugify_meets_spec [of "runes ''  Gophers & Go-lang!  ''" "\<lambda>r. r"]
      Slugify_meets_spec [of "runes ''+= !''" "\<lambda>r. r"]
      Slugify_meets_spec [of katakana "\<lambda>r. r"] s1 s2 s3
    by (simp add: runes_def katakana_def)
qed

subsection \<open>ReadJSON\<close>

lemma ReadJSON_switch_typo:
  "ReadJSON_switch maxBytes (other_error (''json:unkown field'' @ name)) = UnknownField name"
  by (simp add: ReadJSON_switch_def strings_HasPrefix_def strings_TrimPrefix_def
      UnknownField_def)

text \<open>
  C3, on the code. The case that builds \<open>body containes unknown key\<close> tests the prefix
  \<open>json:unkown field\<close>; the decoder's text is \<open>json: unknown field "key"\<close>. The test
  fails for every key, no later case matches, and the \<open>default\<close> case returns the
  decoder's error unchanged. So for the body \<open>{"foo2":"1"}\<close>, a target with the one field
  \<open>foo\<close> and \<open>AllowUnkownFields = false\<close>, \<open>ReadJSON\<close> returns the raw decoder error.
\<close>

theorem ReadJSON_unknown_field_unclassified:
  \<open>ReadJSON_switch maxBytes (json_unknown_field q) = Lib (json_unknown_field q)
   \<and> ReadJSON_switch maxBytes (json_unknown_field q) \<noteq> UnknownField name
   \<and> ReadJSON scripted_decoder
        \<lparr>MaxFileSize = 0, AllowedFileTypes = [], MaxJSONSize = 1024, AllowUnkownFields = False\<rparr>
        [Some (json_unknown_field ''"foo2"'')] ()
       = (Some (Lib (other_error ''json: unknown field "foo2"'')), ())\<close>
  by (simp add: ReadJSON_def ReadJSON_decoder_def scripted_decoder_def ReadJSON_switch_def
      strings_HasPrefix_def json_unknown_field_def UnknownField_def)

text \<open>
  C7. When the first \<open>Decode\<close> succeeds, \<open>ReadJSON\<close> decodes once more: it fails with
  \<open>body must contain only one JSON value\<close> whenever that second call returns anything
  other than \<open>io.EOF\<close> (a value, or any other error), and it succeeds when the second call
  returns \<open>io.EOF\<close>.
\<close>

theorem ReadJSON_single_value:
  assumes "Decode J (snd (ReadJSON_decoder J t body)) data = (None, data1, dec1)"
  shows "fst (ReadJSON J t body data) =
     (if fst (Decode_empty_struct J dec1) = Some io_EOF then None else Some MultipleValues)"
  using assms
  by (simp add: ReadJSON_def split_def MultipleValues_def)

theorem ReadJSON_single_value_witness:
  \<open>Decode scripted_decoder
      (snd (ReadJSON_decoder scripted_decoder
        \<lparr>MaxFileSize = 0, AllowedFileTypes = [], MaxJSONSize = 1024, AllowUnkownFields = False\<rparr>
        [None, Some (json_unknown_field ''"a"'')])) ()
     = (None, (), [Some (json_unknown_field ''"a"'')])
   \<and> fst (ReadJSON scripted_decoder
        \<lparr>MaxFileSize = 0, AllowedFileTypes = [], MaxJSONSize = 1024, AllowUnkownFields = False\<rparr>
        [None, Some (json_unknown_field ''"a"'')] ())
       = Some (errors_New ''body must contain only one JSON value'')
   \<and> fst (ReadJSON scripted_decoder
        \<lparr>MaxFileSize = 0, AllowedFileTypes = [], MaxJSONSize = 1024, AllowUnkownFields = False\<rparr>
        [None, None] ())
       = Some (errors_New ''body must contain only one JSON value'')
   \<and> fst (ReadJSON scripted_decoder
        \<lparr>MaxFileSize = 0, AllowedFileTypes = [], MaxJSONSize = 1024, AllowUnkownFields = False\<rparr>
        [None] ())
       = None\<close>
proof -
  let ?t = "\<lparr>MaxFileSize = 0, AllowedFileTypes = [], MaxJSONSize = 1024,
    AllowUnkownFields = False\<rparr>"
  have d: "Decode scripted_decoder (snd (ReadJSON_decoder scripted_decoder ?t (None # rest))) ()
      = (None, (), rest)" for rest
    by (simp add: ReadJSON_decoder_def scripted_decoder_def)
  show ?thesis
    using ReadJSON_single_value [OF d [of "[Some (json_unknown_field [CHR 0x22, CHR ''a'', CHR 0x22])]"]]
      ReadJSON_single_value [OF d [of "[None]"]]
      ReadJSON_single_value [OF d [of "[]"]] d
    by (simp add: scripted_decoder_def MultipleValues_def json_unknown_field_def)
qed

subsection \<open>The upload pipeline\<close>

lemma RandomString_25: "RandomString rd 25 = Inr (RandomString_loop 25 rd)"
  by (simp add: RandomString_def)

lemma upload_closure_error_nil:
  assumes "fst (upload_closure L t uploadDir renameFile hdr ups w arg) = Inr (fs, Some e)"
  shows "fs = []"
  using assms
  by (auto simp: upload_closure_def RandomString_25 Let_def split_def
      split: option.splits sum.splits if_splits)

lemma range_fHeaders_returned:
  "fst (range_fHeaders L t uploadDir renameFile hdrs ups w) = Inr (Some (fs, err))
     \<Longrightarrow> fs = [] \<and> err \<noteq> None"
proof (induction hdrs arbitrary: ups w)
  case Nil
  then show ?case by simp
next
  case (Cons hdr hdrs)
  obtain res outer w1
    where c: "upload_closure L t uploadDir renameFile hdr ups w ups = (res, outer, w1)"
    by (cases "upload_closure L t uploadDir renameFile hdr ups w ups")
  show ?case
  proof (cases res)
    case (Inl p)
    with Cons.prems c show ?thesis by simp
  next
    case (Inr r)
    obtain inner e where r: "r = (inner, e)" by (cases r)
    show ?thesis
    proof (cases e)
      case None
      with Cons.prems c Inr r
      have "fst (range_fHeaders L t uploadDir renameFile hdrs outer w1) = Inr (Some (fs, err))"
        by simp
      then show ?thesis by (rule Cons.IH)
    next
      case (Some e')
      with c Inr r
      have "fst (upload_closure L t uploadDir renameFile hdr ups w ups) = Inr (inner, Some e')"
        by simp
      then have "inner = []" by (rule upload_closure_error_nil)
      with Cons.prems c Inr r Some show ?thesis by auto
    qed
  qed
qed

lemma range_File_returned:
  "fst (range_File L t uploadDir renameFile fs_map ups w) = Inr (Some (fs, err))
     \<Longrightarrow> fs = [] \<and> err \<noteq> None"
proof (induction fs_map arbitrary: ups w)
  case Nil
  then show ?case by simp
next
  case (Cons kv rest)
  obtain key fHeaders where kv: "kv = (key, fHeaders)" by (cases kv)
  obtain res outer w1
    where c: "range_fHeaders L t uploadDir renameFile fHeaders ups w = (res, outer, w1)"
    by (cases "range_fHeaders L t uploadDir renameFile fHeaders ups w")
  show ?case
  proof (cases "res = Inr None")
    case True
    with Cons.prems kv c
    have "fst (range_File L t uploadDir renameFile rest outer w1) = Inr (Some (fs, err))"
      by simp
    then show ?thesis by (rule Cons.IH)
  next
    case False
    with Cons.prems kv c have "res = Inr (Some (fs, err))"
      by (auto split: sum.splits option.splits)
    with c
    have "fst (range_fHeaders L t uploadDir renameFile fHeaders ups w) = Inr (Some (fs, err))"
      by simp
    then show ?thesis by (rule range_fHeaders_returned)
  qed
qed

lemma png_part_fields:
  "Filename png_part = ''img.png''" "Content png_part = png_signature @ [0, 0, 0, 0x0D]"
  "Open_err png_part = None" "Read_err png_part = None" "Seek_err png_part = None"
  by (simp_all add: png_part_def)

lemma text_part_fields:
  "Filename text_part = ''note.txt''" "Content text_part = [0x68, 0x69]"
  "Open_err text_part = None" "Read_err text_part = None" "Seek_err text_part = None"
  by (simp_all add: text_part_def)

lemma example_lib_fields:
  "DetectContentType example_lib buff =
     (if take 8 buff = png_signature then ''image/png''
      else if 0 \<in> set buff then ''application/octet-stream''
      else ''text/plain; charset=utf-8'')"
  "EqualFold example_lib s x = (s = x)"
  "MkdirAll example_lib path = None"
  "Create example_lib dir name = None"
  "Copy example_lib dir name content = (length content, None)"
  by (simp_all add: example_lib_def)

lemma infile_Read_png:
  "infile_Read png_part = Inr (png_signature @ [0, 0, 0, 0x0D] @ replicate 500 0)"
  by (simp add: infile_Read_def png_part_fields png_signature_def replicate_add [symmetric])

lemma infile_Read_text: "infile_Read text_part = Inr ([0x68, 0x69] @ replicate 510 0)"
  by (simp add: infile_Read_def text_part_fields)

lemma CreateDir_example:
  "CreateDirIfNotExist example_lib w dir =
     (None, if dir \<in> set (existing w) then w else w\<lparr>existing := dir # existing w\<rparr>)"
  by (simp add: CreateDirIfNotExist_def example_lib_fields)

lemma example_request_fields:
  "ParseMultipartForm (example_request parts) m = None"
  "MultipartForm_File (example_request parts) = (if parts = [] then [] else [(''file'', parts)])"
  by (simp_all add: example_request_def)

lemma example_tools_fields:
  "MaxFileSize (example_tools a) = 0" "AllowedFileTypes (example_tools a) = a"
  by (simp_all add: example_tools_def)

lemma closure_png:
  "AllowedFileTypes t = [''image/png''] \<Longrightarrow>
   upload_closure example_lib t dir False png_part ups w arg
   = (Inr (arg, None),
      ups @ [\<lparr>NewFileName = ''img.png'', OriginalFileName = ''img.png'', FileSize = 12\<rparr>],
      w\<lparr>disk := (disk w)((dir, ''img.png'') \<mapsto> png_signature @ [0, 0, 0, 0x0D]),
         open_handles := Os_file dir ''img.png'' # open_handles w\<rparr>)"
  by (simp add: upload_closure_def infile_Read_png example_lib_fields allowed_type_def
      png_part_fields File_Close_def png_signature_def Let_def)

lemma closure_text:
  "AllowedFileTypes t = [''image/png''] \<Longrightarrow>
   upload_closure example_lib t dir False text_part ups w arg
   = (Inr ([], Some (errors_New ''the uploaded file type is not permitted'')), ups, w)"
  by (simp add: upload_closure_def infile_Read_text example_lib_fields allowed_type_def
      text_part_fields File_Close_def png_signature_def Let_def)

lemma UploadFiles_png_then_text:
  "UploadFiles example_lib (example_tools [''image/png'']) example_world
      (example_request [png_part, text_part]) ''./testdata/upload/'' [False]
   = (Inr ([], Some (errors_New ''the uploaded file type is not permitted'')),
      (example_tools [''image/png''])\<lparr>MaxFileSize := 1073741824\<rparr>,
      example_world\<lparr>disk := [(''./testdata/upload/'', ''img.png'') \<mapsto> png_signature @ [0, 0, 0, 0x0D]],
         open_handles := [Os_file ''./testdata/upload/'' ''img.png'']\<rparr>)"
  by (simp add: UploadFiles_def CreateDir_example example_request_fields example_tools_fields
      closure_png closure_text example_world_def Let_def)

lemma UploadFiles_png_only:
  "UploadFiles example_lib (example_tools [''image/png'']) example_world
      (example_request [png_part]) ''./testdata/upload/'' [False]
   = (Inr ([\<lparr>NewFileName = ''img.png'', OriginalFileName = ''img.png'', FileSize = 12\<rparr>], None),
      (example_tools [''image/png''])\<lparr>MaxFileSize := 1073741824\<rparr>,
      example_world\<lparr>disk := [(''./testdata/upload/'', ''img.png'') \<mapsto> png_signature @ [0, 0, 0, 0x0D]],
         open_handles := [Os_file ''./testdata/upload/'' ''img.png'']\<rparr>)"
  by (simp add: UploadFiles_def CreateDir_example example_request_fields example_tools_fields
      closure_png example_world_def Let_def)

text \<open>
  The renamed upload of the package's tests, on a random source that always delivers the
  prime 13835058055282166141: the new name is 25 characters and the extension.
\<close>

lemma RandomString_loop_const:
  "RandomString_loop k (\<lambda>i. p) = (replicate k (randomStringSource ! (Uint64 p mod 64)), \<lambda>i. p)"
  by (induction k) (simp_all add: rand_Prime_def length_randomStringSource Let_def)

lemma RandomString_25_nines:
  "RandomString (\<lambda>i. 13835058055282166141) 25
     = Inr (''9999999999999999999999999'', \<lambda>i. 13835058055282166141)"
proof -
  have "randomStringSource ! (Uint64 13835058055282166141 mod 64) = CHR ''9''"
    by (simp add: Uint64_def randomStringSource_def)
  moreover have "replicate 25 CHR ''9'' = ''9999999999999999999999999''"
    by (simp add: numeral_eq_Suc)
  ultimately show ?thesis
    by (simp add: RandomString_def RandomString_loop_const)
qed

lemma filepath_Ext_examples:
  "filepath_Ext ''./testdata/img.png'' = ''.png''"
  "filepath_Ext ''archive.tar.gz'' = ''.gz''"
  "filepath_Ext ''dir.d/readme'' = []"
  by (simp_all add: filepath_Ext_def)

lemma UploadOneFile_png_renamed:
  "fst (UploadOneFile example_lib (example_tools [''image/jpg'', ''image/png'']) example_world
      (example_request [png_part]) ''./testdata/upload/'' [True])
   = Inr (Some \<lparr>NewFileName = ''9999999999999999999999999.png'',
                OriginalFileName = ''img.png'', FileSize = 12\<rparr>, None)"
proof -
  have c: "upload_closure example_lib
      ((example_tools [''image/jpg'', ''image/png''])\<lparr>MaxFileSize := m\<rparr>)
      ''./testdata/upload/'' True png_part [] example_world []
    = (Inr ([], None),
       [\<lparr>NewFileName = ''9999999999999999999999999.png'', OriginalFileName = ''img.png'',
          FileSize = 12\<rparr>],
       example_world\<lparr>disk := [(''./testdata/upload/'', ''9999999999999999999999999.png'') \<mapsto>
            png_signature @ [0, 0, 0, 0x0D]],
          open_handles := [Os_file ''./testdata/upload/'' ''9999999999999999999999999.png'']\<rparr>)"
    for m
    by (simp add: upload_closure_def infile_Read_png example_lib_fields allowed_type_def
        example_tools_def png_part_fields File_Close_def png_signature_def example_world_def
        RandomString_25_nines filepath_Ext_def Let_def)
  show ?thesis
    by (simp add: UploadOneFile_def UploadFiles_def CreateDir_example example_request_fields
        example_tools_fields c Let_def) (simp add: example_world_def)
qed

text \<open>
  C1, on the code. Whenever \<open>UploadFiles\<close> returns an error, the sequence it returns with
  it is nil: the function literal returns \<open>nil, err\<close> on every failure, and
  \<open>return uploadedFiles, err\<close> names the variable declared by \<open>:=\<close> in the loop body,
  which holds the literal's result, not the sequence accumulated so far. In the example a
  PNG part is stored first and a second part is then rejected by the allow-list: the file
  of the first part is on disk, and the returned sequence is empty.
\<close>

theorem UploadFiles_failure_returns_nil:
  assumes "fst (UploadFiles L t w r uploadDir rename) = Inr (fs, Some e)"
  shows "fs = []"
proof -
  let ?t1 = "if MaxFileSize t = 0 then t\<lparr>MaxFileSize := 1024 * 1024 * 1024\<rparr> else t"
  let ?rn = "if length rename > 0 then rename ! 0 else True"
  obtain err w1 where cd: "CreateDirIfNotExist L w uploadDir = (err, w1)"
    by (cases "CreateDirIfNotExist L w uploadDir")
  show ?thesis
  proof (cases "err \<noteq> None \<or> ParseMultipartForm r (MaxFileSize ?t1) \<noteq> None")
    case True
    with assms cd show ?thesis
      by (auto simp: UploadFiles_def Let_def split: if_splits)
  next
    case False
    obtain res outer w2
      where rf: "range_File L ?t1 uploadDir ?rn (MultipartForm_File r) [] w1 = (res, outer, w2)"
      by (cases "range_File L ?t1 uploadDir ?rn (MultipartForm_File r) [] w1")
    with assms cd False have "res = Inr (Some (fs, Some e))"
      by (auto simp: UploadFiles_def Let_def split: if_splits sum.splits option.splits)
    with rf
    have "fst (range_File L ?t1 uploadDir ?rn (MultipartForm_File r) [] w1)
        = Inr (Some (fs, Some e))"
      by simp
    then show ?thesis using range_File_returned by blast
  qed
qed

theorem UploadFiles_failure_returns_nil_witness:
  "fst (UploadFiles example_lib (example_tools [''image/png'']) example_world
      (example_request [png_part, text_part]) ''./testdata/upload/'' [False])
     = Inr ([], Some (errors_New ''the uploaded file type is not permitted''))
   \<and> disk (snd (snd (UploadFiles example_lib (example_tools [''image/png'']) example_world
      (example_request [png_part, text_part]) ''./testdata/upload/'' [False])))
       (''./testdata/upload/'', ''img.png'') = Some (Content png_part)"
proof -
  let ?u = "UploadFiles example_lib (example_tools [''image/png'']) example_world
      (example_request [png_part, text_part]) ''./testdata/upload/'' [False]"
  obtain fs
    where f: "fst ?u = Inr (fs, Some (errors_New ''the uploaded file type is not permitted''))"
    by (simp add: UploadFiles_png_then_text)
  from UploadFiles_failure_returns_nil [OF f] f
  have "fst ?u = Inr ([], Some (errors_New ''the uploaded file type is not permitted''))"
    by simp
  moreover have "disk (snd (snd ?u)) (''./testdata/upload/'', ''img.png'')
      = Some (Content png_part)"
    by (simp add: UploadFiles_png_then_text png_part_fields)
  ultimately show ?thesis by simp
qed

text \<open>
  C2, on the code. With no file part in the form, \<open>UploadFiles\<close> returns a nil slice and
  a nil error, and \<open>files[0]\<close> in \<open>UploadOneFile\<close> panics with an index out of range: no
  error value is returned.
\<close>

theorem UploadOneFile_no_parts_panics:
  assumes "fst (CreateDirIfNotExist L w uploadDir) = None"
    and "ParseMultipartForm r (if MaxFileSize t = 0 then 1073741824 else MaxFileSize t) = None"
    and "MultipartForm_File r = []"
  shows "fst (UploadOneFile L t w r uploadDir rename) = Inl (IndexOutOfRange 0 0)"
  using assms
  by (auto simp: UploadOneFile_def UploadFiles_def Let_def split_def split: if_splits)

theorem UploadOneFile_no_parts_panics_witness:
  "fst (CreateDirIfNotExist example_lib example_world ''./testdata/upload/'') = None
   \<and> MultipartForm_File (example_request []) = []
   \<and> fst (UploadOneFile example_lib (example_tools []) example_world (example_request [])
        ''./testdata/upload/'' [True]) = Inl (IndexOutOfRange 0 0)"
proof -
  have h1: "fst (CreateDirIfNotExist example_lib example_world ''./testdata/upload/'') = None"
    by (simp add: CreateDir_example)
  have h2: "ParseMultipartForm (example_request [])
      (if MaxFileSize (example_tools []) = 0 then 1073741824 else MaxFileSize (example_tools []))
      = None"
    by (simp add: example_request_fields)
  have h3: "MultipartForm_File (example_request []) = []"
    by (simp add: example_request_fields)
  from UploadOneFile_no_parts_panics [OF h1 h2 h3, of "[True]"] h1 h3 show ?thesis
    by simp
qed

lemma UploadFiles_Tools:
  "fst (snd (UploadFiles L t w r uploadDir rename)) =
     t\<lparr>MaxFileSize := (if MaxFileSize t = 0 then 1073741824 else MaxFileSize t)\<rparr>"
  by (simp add: UploadFiles_def Let_def split_def split: sum.splits option.splits)

lemma UploadOneFile_Tools:
  "fst (snd (UploadOneFile L t w r uploadDir rename)) =
     t\<lparr>MaxFileSize := (if MaxFileSize t = 0 then 1073741824 else MaxFileSize t)\<rparr>"
proof -
  let ?u = "UploadFiles L t w r uploadDir [if length rename > 0 then rename ! 0 else True]"
  have "fst (snd (UploadOneFile L t w r uploadDir rename)) = fst (snd ?u)"
    by (simp add: UploadOneFile_def Let_def split_def split: sum.splits prod.splits)
  then show ?thesis by (simp only: UploadFiles_Tools)
qed

lemma method_ErrorJSON_result:
  "method_ErrorJSON H t w err status = (ErrorJSON H w err status, t)"
  by (simp add: method_ErrorJSON_def ErrorJSON_def method_WriteJSON_def Let_def)

text \<open>
  C4, as the code has it. No operation writes to the \<open>Tools\<close> struct except
  \<open>UploadFiles\<close>, and \<open>UploadOneFile\<close> through it: these store the default of 1 GiB in
  \<open>t.MaxFileSize\<close> when that field is zero, and nothing else. After a call of any of
  the ten methods \<open>AllowedFileTypes\<close>, \<open>MaxJSONSize\<close> and \<open>AllowUnkownFields\<close> are as
  before, and so is \<open>MaxFileSize\<close>, unless the call is an upload and the field was zero.
\<close>

theorem Tools_written_only_by_upload_default:
  "snd (method_RandomString t rd n) = t
   \<and> snd (method_Slugify To_LowerCase t s) = t
   \<and> snd (method_CreateDirIfNotExist L t w path) = t
   \<and> snd (method_ReadJSON J t body data) = t
   \<and> snd (method_WriteJSON H t rw status v headers) = t
   \<and> snd (method_ErrorJSON H1 t rw1 err codes) = t
   \<and> snd (method_PushJSONToRemote C t url v2 client) = t
   \<and> snd (method_DownloadStaticFiles H2 t rw2 rq p file displayName) = t
   \<and> fst (snd (UploadFiles L t w r uploadDir rename)) =
       t\<lparr>MaxFileSize := (if MaxFileSize t = 0 then 1073741824 else MaxFileSize t)\<rparr>
   \<and> fst (snd (UploadOneFile L t w r uploadDir rename)) =
       t\<lparr>MaxFileSize := (if MaxFileSize t = 0 then 1073741824 else MaxFileSize t)\<rparr>"
  by (simp add: method_RandomString_def method_Slugify_def method_CreateDirIfNotExist_def
      method_ReadJSON_def method_WriteJSON_def method_ErrorJSON_result
      method_PushJSONToRemote_def method_DownloadStaticFiles_def
      UploadFiles_Tools UploadOneFile_Tools)

theorem Tools_written_only_by_upload_default_witness:
  "fst (snd (UploadFiles example_lib
      \<lparr>MaxFileSize = 4096, AllowedFileTypes = [''image/png''], MaxJSONSize = 7,
        AllowUnkownFields = True\<rparr>
      example_world (example_request [png_part]) ''./testdata/upload/'' [False]))
     = \<lparr>MaxFileSize = 4096, AllowedFileTypes = [''image/png''], MaxJSONSize = 7,
        AllowUnkownFields = True\<rparr>
   \<and> fst (snd (UploadOneFile example_lib
      \<lparr>MaxFileSize = 0, AllowedFileTypes = [''image/png''], MaxJSONSize = 7,
        AllowUnkownFields = True\<rparr>
      example_world (example_request [png_part]) ''./testdata/upload/'' [False]))
     = \<lparr>MaxFileSize = 1073741824, AllowedFileTypes = [''image/png''], MaxJSONSize = 7,
        AllowUnkownFields = True\<rparr>
   \<and> method_ReadJSON scripted_decoder
      \<lparr>MaxFileSize = 0, AllowedFileTypes = [''image/png''], MaxJSONSize = 0,
        AllowUnkownFields = False\<rparr> [None] ()
     = ((None, ()),
        \<lparr>MaxFileSize = 0, AllowedFileTypes = [''image/png''], MaxJSONSize = 0,
          AllowUnkownFields = False\<rparr>)
   \<and> method_Slugify (\<lambda>r. r)
      \<lparr>MaxFileSize = 0, AllowedFileTypes = [''image/png''], MaxJSONSize = 0,
        AllowUnkownFields = False\<rparr> (runes ''Go 1'')
     = ((runes ''go-1'', None),
        \<lparr>MaxFileSize = 0, AllowedFileTypes = [''image/png''], MaxJSONSize = 0,
          AllowUnkownFields = False\<rparr>)"
proof -
  let ?t1 = "\<lparr>MaxFileSize = 4096, AllowedFileTypes = [''image/png''], MaxJSONSize = 7,
    AllowUnkownFields = True\<rparr>"
  let ?t2 = "\<lparr>MaxFileSize = 0, AllowedFileTypes = [''image/png''], MaxJSONSize = 7,
    AllowUnkownFields = True\<rparr>"
  let ?t3 = "\<lparr>MaxFileSize = 0, AllowedFileTypes = [''image/png''], MaxJSONSize = 0,
    AllowUnkownFields = False\<rparr>"
  have r: "fst (method_ReadJSON scripted_decoder ?t3 [None] ()) = (None, ())"
    by (simp add: method_ReadJSON_def ReadJSON_def ReadJSON_decoder_def scripted_decoder_def)
  have g: "fst (method_Slugify (\<lambda>r. r) ?t3 (runes ''Go 1'')) = (runes ''go-1'', None)"
    by (simp add: method_Slugify_def Slugify_def strings_ToLower_def strings_Trim_def
        unicode_ToLower_def re_class_def runes_def)
  note T = Tools_written_only_by_upload_default
  have "fst (snd (UploadFiles example_lib ?t1 example_world (example_request [png_part])
      ''./testdata/upload/'' [False]))
     = ?t1\<lparr>MaxFileSize := (if MaxFileSize ?t1 = 0 then 1073741824 else MaxFileSize ?t1)\<rparr>"
    by (rule T [THEN conjunct2, THEN conjunct2, THEN conjunct2, THEN conjunct2, THEN conjunct2,
          THEN conjunct2, THEN conjunct2, THEN conjunct2, THEN conjunct1])
  then have a: "fst (snd (UploadFiles example_lib ?t1 example_world
      (example_request [png_part]) ''./testdata/upload/'' [False])) = ?t1"
    by simp
  have "fst (snd (UploadOneFile example_lib ?t2 example_world (example_request [png_part])
      ''./testdata/upload/'' [False]))
     = ?t2\<lparr>MaxFileSize := (if MaxFileSize ?t2 = 0 then 1073741824 else MaxFileSize ?t2)\<rparr>"
    by (rule T [THEN conjunct2, THEN conjunct2, THEN conjunct2, THEN conjunct2, THEN conjunct2,
          THEN conjunct2, THEN conjunct2, THEN conjunct2, THEN conjunct2])
  then have b: "fst (snd (UploadOneFile example_lib ?t2 example_world
      (example_request [png_part]) ''./testdata/upload/'' [False]))
     = \<lparr>MaxFileSize = 1073741824, AllowedFileTypes = [''image/png''], MaxJSONSize = 7,
        AllowUnkownFields = True\<rparr>"
    by simp
  have c: "snd (method_ReadJSON scripted_decoder ?t3 [None] ()) = ?t3"
    by (rule T [THEN conjunct2, THEN conjunct2, THEN conjunct2, THEN conjunct1])
  have d: "snd (method_Slugify (\<lambda>r. r) ?t3 (runes ''Go 1'')) = ?t3"
    by (rule T [THEN conjunct2, THEN conjunct1])
  from r c have "method_ReadJSON scripted_decoder ?t3 [None] () = ((None, ()), ?t3)"
    by (simp add: prod_eq_iff)
  moreover from g d
  have "method_Slugify (\<lambda>r. r) ?t3 (runes ''Go 1'') = ((runes ''go-1'', None), ?t3)"
    by (simp add: prod_eq_iff)
  ultimately show ?thesis using a b by simp
qed

text \<open>
  C4 as the claim words it fails: a \<open>Tools\<close> whose \<open>MaxFileSize\<close> is zero has
  \<open>MaxFileSize = 1073741824\<close> after \<open>UploadFiles\<close>.
\<close>

theorem UploadFiles_mutates_MaxFileSize:
  "MaxFileSize (example_tools [''image/png'']) = 0
   \<and> MaxFileSize (fst (snd (UploadFiles example_lib (example_tools [''image/png''])
        example_world (example_request [png_part]) ''./testdata/upload/'' [False])))
       = 1073741824"
  by (simp add: UploadFiles_png_only example_tools_fields)

lemma infile_Read_buffer:
  assumes "Read_err hdr = None" and "Content hdr \<noteq> []"
  shows "infile_Read hdr = Inr (take 512 (Content hdr) @ replicate (512 - length (Content hdr)) 0)"
  using assms by (simp add: infile_Read_def Let_def min_def)

lemma closure_rejects_iff:
  assumes "Open_err hdr = None" and "infile_Read hdr = Inr buff"
  shows "fst (upload_closure L t dir rn hdr ups w arg)
           = Inr ([], Some (errors_New ''the uploaded file type is not permitted''))
         \<longleftrightarrow> \<not> allowed_type L t (DetectContentType L buff)"
  using assms
  by (auto simp: upload_closure_def RandomString_25 Let_def split_def
      split: option.splits sum.splits if_splits)

lemma closure_empty_part:
  assumes "Open_err hdr = None" and "Read_err hdr = None" and "Content hdr = []"
  shows "upload_closure L t dir rn hdr ups w arg = (Inr ([], Some (Lib io_EOF)), ups, w)"
  using assms
  by (simp add: upload_closure_def infile_Read_def File_Close_def Let_def)

text \<open>
  A two-byte part \<open>hi\<close> is sniffed on 512 bytes, its two bytes and 510 zero bytes:
  sniffed on the two bytes it is plain text, sniffed on the buffer it is binary data, and
  with an allow-list of plain text the part is rejected.
\<close>

lemma sniffing_short_part_zero_padded:
  "take (min 512 (length (Content text_part))) (Content text_part) = [0x68, 0x69]
   \<and> infile_Read text_part = Inr ([0x68, 0x69] @ replicate 510 0)
   \<and> DetectContentType example_lib [0x68, 0x69] = ''text/plain; charset=utf-8''
   \<and> DetectContentType example_lib ([0x68, 0x69] @ replicate 510 0) = ''application/octet-stream''
   \<and> fst (upload_closure example_lib (example_tools [''text/plain; charset=utf-8''])
        ''./testdata/upload/'' False text_part [] example_world [])
       = Inr ([], Some (errors_New ''the uploaded file type is not permitted''))"
proof -
  have a: "fst (upload_closure example_lib (example_tools [''text/plain; charset=utf-8''])
        ''./testdata/upload/'' False text_part [] example_world [])
       = Inr ([], Some (errors_New ''the uploaded file type is not permitted''))"
    by (simp add: upload_closure_def infile_Read_text example_lib_fields example_tools_fields
        allowed_type_def text_part_fields File_Close_def png_signature_def Let_def)
  show ?thesis
    using a
    by (simp add: infile_Read_text example_lib_fields text_part_fields png_signature_def)
qed

text \<open>
  An empty part: the read returns \<open>io.EOF\<close>, the function literal returns it as the
  error of the part, whatever the allow-list is, and \<open>UploadFiles\<close> fails with it.
\<close>

lemma UploadFiles_empty_part:
  "fst (UploadFiles example_lib (example_tools []) example_world (example_request [empty_part])
      ''./testdata/upload/'' [False]) = Inr ([], Some (Lib io_EOF))"
proof -
  have "upload_closure example_lib t ''./testdata/upload/'' False empty_part [] example_world []
      = (Inr ([], Some (Lib io_EOF)), [], example_world)" for t
    by (rule closure_empty_part) (simp_all add: empty_part_def)
  then show ?thesis
    by (simp add: UploadFiles_def CreateDir_example example_request_fields Let_def)
      (simp add: example_world_def)
qed

text \<open>
  C5, on the code. The byte count of \<open>infile.Read\<close> is discarded and the whole buffer
  is sniffed. For a part whose stream opens and reads without an I/O error: a non-empty
  part is sniffed on 512 bytes, its first \<open>min(512, length)\<close> bytes followed by zero
  bytes, so a part shorter than 512 bytes is sniffed with its zero padding and not on the
  bytes it contains, and the part is rejected as not permitted exactly when the allow-list
  does not admit the type sniffed from that buffer; an empty part fails with \<open>io.EOF\<close> at
  the read, before the allow-list is consulted. In the example the two-byte plain text
  \<open>hi\<close> is refused under an allow-list of plain text, and an empty part fails although
  every type is allowed.
\<close>

theorem sniffing_reads_whole_buffer:
  assumes "Open_err hdr = None" and "Read_err hdr = None"
  shows "(Content hdr \<noteq> [] \<longrightarrow>
           (let n = min 512 (length (Content hdr));
                buff = take 512 (Content hdr) @ replicate (512 - length (Content hdr)) 0
            in infile_Read hdr = Inr buff
               \<and> length buff = 512
               \<and> take n buff = take n (Content hdr)
               \<and> drop n buff = replicate (512 - n) 0
               \<and> (fst (upload_closure L t dir rn hdr ups w arg)
                      = Inr ([], Some (errors_New ''the uploaded file type is not permitted''))
                    \<longleftrightarrow> \<not> allowed_type L t (DetectContentType L buff))))
       \<and> (Content hdr = [] \<longrightarrow>
             infile_Read hdr = Inl io_EOF
             \<and> upload_closure L t dir rn hdr ups w arg = (Inr ([], Some (Lib io_EOF)), ups, w))"
proof (cases "Content hdr = []")
  case True
  with assms show ?thesis
    by (simp add: closure_empty_part infile_Read_def)
next
  case False
  let ?buff = "take 512 (Content hdr) @ replicate (512 - length (Content hdr)) 0"
  have r: "infile_Read hdr = Inr ?buff"
    using assms(2) False by (rule infile_Read_buffer)
  have "fst (upload_closure L t dir rn hdr ups w arg)
          = Inr ([], Some (errors_New ''the uploaded file type is not permitted''))
        \<longleftrightarrow> \<not> allowed_type L t (DetectContentType L ?buff)"
    using assms(1) r by (rule closure_rejects_iff)
  with r False show ?thesis
    by (simp add: Let_def min_def)
qed

theorem sniffing_reads_whole_buffer_witness:
  "Open_err text_part = None \<and> Read_err text_part = None \<and> Content text_part \<noteq> []
   \<and> infile_Read text_part = Inr ([0x68, 0x69] @ replicate 510 0)
   \<and> DetectContentType example_lib (Content text_part) = ''text/plain; charset=utf-8''
   \<and> DetectContentType example_lib ([0x68, 0x69] @ replicate 510 0) = ''application/octet-stream''
   \<and> fst (upload_closure example_lib (example_tools [''text/plain; charset=utf-8''])
        ''./testdata/upload/'' False text_part [] example_world [])
       = Inr ([], Some (errors_New ''the uploaded file type is not permitted''))
   \<and> Open_err empty_part = None \<and> Read_err empty_part = None \<and> Content empty_part = []
   \<and> upload_closure example_lib (example_tools []) ''./testdata/upload/'' False empty_part []
        example_world [] = (Inr ([], Some (Lib io_EOF)), [], example_world)"
proof -
  have t: "Open_err text_part = None" "Read_err text_part = None" "Content text_part \<noteq> []"
    by (simp_all add: text_part_fields)
  have e: "Open_err empty_part = None" "Read_err empty_part = None" "Content empty_part = []"
    by (simp_all add: empty_part_def)
  have d: "DetectContentType example_lib (Content text_part) = ''text/plain; charset=utf-8''"
    "DetectContentType example_lib ([0x68, 0x69] @ replicate 510 0) = ''application/octet-stream''"
    by (simp_all add: example_lib_fields text_part_fields png_signature_def)
  have n: "\<not> allowed_type example_lib (example_tools [''text/plain; charset=utf-8''])
      ''application/octet-stream''"
    by (simp add: allowed_type_def example_lib_fields example_tools_fields)
  from sniffing_reads_whole_buffer [OF t(1) t(2), of example_lib
      "example_tools [''text/plain; charset=utf-8'']" "''./testdata/upload/''" False "[]"
      example_world "[]"]
    sniffing_reads_whole_buffer [OF e(1) e(2), of example_lib "example_tools []"
      "''./testdata/upload/''" False "[]" example_world "[]"] t e d n
  show ?thesis
    by (simp add: Let_def text_part_fields)
qed

lemma closure_handles:
  assumes "upload_closure L t dir rn hdr ups w arg = (res, ups', w')"
  shows "open_handles w' = open_handles w
       \<or> (\<exists>name. open_handles w' = Os_file dir name # open_handles w)"
  using assms
  by (auto simp: upload_closure_def RandomString_25 Let_def split_def File_Close_def
      split: option.splits sum.splits if_splits)

lemma closure_success_handles:
  assumes "upload_closure L t dir rn hdr ups w arg = (Inr (fs, None), ups', w')"
  shows "\<exists>uf. ups' = ups @ [uf]
           \<and> open_handles w' = Os_file dir (NewFileName uf) # open_handles w"
  using assms
  by (auto simp: upload_closure_def RandomString_25 Let_def split_def File_Close_def
      split: option.splits sum.splits if_splits)

text \<open>
  C6, on the code. On every exit of the function literal the stream of the part is closed
  again: the handles open afterwards are those open before, and at most the destination
  file in addition. But whenever a part is stored, the handle of the created destination
  file is still open when the literal returns: the deferred \<open>outfile.Close()\<close> was
  evaluated on the nil variable. In the example the destination file of the one part is
  open after \<open>UploadFiles\<close> has returned.
\<close>

theorem destination_file_left_open:
  assumes "upload_closure L t dir rn hdr ups w arg = (res, ups', w')"
  shows "(open_handles w' = open_handles w
          \<or> (\<exists>name. open_handles w' = Os_file dir name # open_handles w))
       \<and> (\<forall>fs. res = Inr (fs, None) \<longrightarrow>
             (\<exists>uf. ups' = ups @ [uf]
                \<and> open_handles w' = Os_file dir (NewFileName uf) # open_handles w))"
  using closure_handles [OF assms] closure_success_handles [of L t dir rn hdr ups w arg _ ups' w']
    assms
  by blast

theorem destination_file_left_open_witness:
  "upload_closure example_lib (example_tools [''image/png'']) ''./testdata/upload/'' False png_part
      [] example_world []
     = (Inr ([], None),
        [\<lparr>NewFileName = ''img.png'', OriginalFileName = ''img.png'', FileSize = 12\<rparr>],
        example_world\<lparr>disk := (disk example_world)((''./testdata/upload/'', ''img.png'') \<mapsto>
              png_signature @ [0, 0, 0, 0x0D]),
           open_handles := Os_file ''./testdata/upload/'' ''img.png'' # open_handles example_world\<rparr>)
   \<and> open_handles example_world = []
   \<and> open_handles (snd (snd (UploadFiles example_lib (example_tools [''image/png''])
        example_world (example_request [png_part]) ''./testdata/upload/'' [False])))
       = [Os_file ''./testdata/upload/'' ''img.png'']"
proof -
  have c: "upload_closure example_lib (example_tools [''image/png'']) ''./testdata/upload/'' False
      png_part [] example_world []
     = (Inr ([], None),
        [] @ [\<lparr>NewFileName = ''img.png'', OriginalFileName = ''img.png'', FileSize = 12\<rparr>],
        example_world\<lparr>disk := (disk example_world)((''./testdata/upload/'', ''img.png'') \<mapsto>
              png_signature @ [0, 0, 0, 0x0D]),
           open_handles := Os_file ''./testdata/upload/'' ''img.png'' # open_handles example_world\<rparr>)"
    by (rule closure_png) (simp add: example_tools_fields)
  have u: "open_handles (snd (snd (UploadFiles example_lib (example_tools [''image/png''])
        example_world (example_request [png_part]) ''./testdata/upload/'' [False])))
       = [Os_file ''./testdata/upload/'' ''img.png'']"
    by (simp add: UploadFiles_png_only)
  have e: "open_handles example_world = []"
    by (simp add: example_world_def)
  from destination_file_left_open [OF c] c u e show ?thesis
    by simp
qed

end
